theory Spec2Isabelle
  imports Complex_Main
begin

section \<open>Embedding of \<open>gripper_control.py\<close>\<close>

text \<open>
  The module drives three MoveIt planning components (both arms, the left gripper, the
  right gripper) through a fixed list of joint-space goals. Every call that leaves the
  module (logger, planner, executor, \<open>time.sleep\<close>, \<open>rclpy\<close>) is recorded, in
  program order, in the trace of an explicit world. The planner is a parameter of the
  model: a function of the trace so far and of the request, so that it may answer the
  same request differently at different times.
\<close>

subsection \<open>Values\<close>

type_synonym group = string
type_synonym robot = string
type_synonym logger = string

text \<open>The value of \<open>math.radians(d)\<close>, kept symbolic in the degrees \<open>d\<close>.\<close>

datatype angle = radians real

datatype trajectory = Trajectory nat

text \<open>A \<open>RobotState\<close>: the joint positions set so far, group by group.\<close>

type_synonym robot_state = "(group \<times> angle list) list"

datatype goal_state = ConfigurationName string | RobotStateGoal robot_state

text \<open>
  The live robot is owned by MoveIt. Its current state is taken to be fixed by the
  trajectories executed so far, and a start state is a snapshot of it.
\<close>

datatype start_state = CurrentState "trajectory list"

text \<open>
  \<open>PlanRequestParameters\<close>: the namespace the constructor reads, and the two scaling
  factors the source assigns (\<open>None\<close>: still the value loaded by the constructor).
\<close>

record plan_request_parameters =
  planning_namespace :: string
  max_acceleration_scaling_factor :: "real option"
  max_velocity_scaling_factor :: "real option"

text \<open>The keyword argument with which \<open>planning_component.plan\<close> is called.\<close>

datatype plan_kwargs =
    MultiPlan "string list"
  | SinglePlan plan_request_parameters
  | NoParameters

record planning_component =
  start :: "start_state option"
  goal :: "goal_state option"

record plan_request =
  req_group :: group
  req_start :: "start_state option"
  req_goal :: "goal_state option"
  req_params :: plan_kwargs

text \<open>
  What \<open>plan\<close> returns: \<open>truthy\<close> is the value of \<open>if plan_result:\<close>, and
  \<open>trajectory\<close> the attribute read in the true branch.
\<close>

record plan_solution =
  truthy :: bool
  trajectory :: trajectory

datatype level = Info | Error

datatype event =
    RclpyInit
  | MoveItPyCreated string
  | Log logger level string
  | Plan plan_request plan_solution
  | Execute robot trajectory "string list"
  | Sleep real
  | RclpyShutdown

record world =
  trace :: "event list"
  components :: "group \<Rightarrow> planning_component"

type_synonym planner = "event list \<Rightarrow> plan_request \<Rightarrow> plan_solution"

datatype error = ValueError

datatype pyval = PyNone

type_synonym action = "world \<Rightarrow> (error + pyval) \<times> world"

subsection \<open>The calls that leave the module\<close>

definition emit :: "event \<Rightarrow> world \<Rightarrow> world" where
  "emit e w = w\<lparr>trace := trace w @ [e]\<rparr>"

fun executions :: "event list \<Rightarrow> trajectory list" where
  "executions [] = []"
| "executions (Execute rb t cs # es) = t # executions es"
| "executions (e # es) = executions es"

definition init_world :: world where
  "init_world = \<lparr>trace = [], components = (\<lambda>g. \<lparr>start = None, goal = None\<rparr>)\<rparr>"

definition rclpy_init :: "world \<Rightarrow> world" where
  "rclpy_init w = emit RclpyInit w"

definition rclpy_shutdown :: "world \<Rightarrow> world" where
  "rclpy_shutdown w = emit RclpyShutdown w"

definition get_logger :: "string \<Rightarrow> logger" where
  "get_logger name = name"

definition logger_info :: "logger \<Rightarrow> string \<Rightarrow> world \<Rightarrow> world" where
  "logger_info lg msg w = emit (Log lg Info msg) w"

definition logger_error :: "logger \<Rightarrow> string \<Rightarrow> world \<Rightarrow> world" where
  "logger_error lg msg w = emit (Log lg Error msg) w"

definition MoveItPy :: "string \<Rightarrow> world \<Rightarrow> robot \<times> world" where
  "MoveItPy node_name w = (node_name, emit (MoveItPyCreated node_name) w)"

text \<open>A planning component is a fresh object, addressed here by its group name.\<close>

definition get_planning_component :: "robot \<Rightarrow> group \<Rightarrow> world \<Rightarrow> group \<times> world" where
  "get_planning_component rb g w =
     (g, w\<lparr>components := (components w)(g := \<lparr>start = None, goal = None\<rparr>)\<rparr>)"

definition PlanRequestParameters :: "robot \<Rightarrow> string \<Rightarrow> plan_request_parameters" where
  "PlanRequestParameters rb ns =
     \<lparr>planning_namespace = ns,
      max_acceleration_scaling_factor = None,
      max_velocity_scaling_factor = None\<rparr>"

text \<open>
  Modelled from the spec: \<open>set_start_state_to_current_state\<close> is a method of MoveIt's
  planning component, and its code is not among the source files. By section 4.1 the
  start state is snapshotted from the robot's current state, with no failure mode.
\<close>

definition set_start_state_to_current_state :: "group \<Rightarrow> world \<Rightarrow> world" where
  "set_start_state_to_current_state g w =
     w\<lparr>components := (components w)
          (g := (components w g)\<lparr>start := Some (CurrentState (executions (trace w)))\<rparr>)\<rparr>"

text \<open>
  Modelled from the spec: \<open>set_goal_state\<close> is a method of MoveIt's planning
  component, and its code is not among the source files. By section 4.1 the request
  carries the goal it is given, a named configuration or a joint-state object, and
  building it is pure data assembly with no failure mode.
\<close>

definition set_goal_state :: "group \<Rightarrow> goal_state \<Rightarrow> world \<Rightarrow> world" where
  "set_goal_state g gs w =
     w\<lparr>components := (components w)(g := (components w g)\<lparr>goal := Some gs\<rparr>)\<rparr>"

text \<open>
  Modelled from the spec: \<open>RobotState\<close> is MoveIt's class, and its code is not among
  the source files. A new joint-state object has no joint position set by the module yet.
\<close>

definition RobotState :: "unit \<Rightarrow> robot_state" where
  "RobotState robot_model = []"

text \<open>
  Modelled from the spec: \<open>set_joint_group_positions\<close> is a method of MoveIt's
  \<open>RobotState\<close>, and its code is not among the source files. By section 4.1 a
  joint-value vector is not validated at this layer, whatever its arity: the values are
  stored for the group as they are given.
\<close>

definition set_joint_group_positions :: "group \<Rightarrow> angle list \<Rightarrow> robot_state \<Rightarrow> robot_state" where
  "set_joint_group_positions g vs rs = (g, vs) # filter (\<lambda>p. fst p \<noteq> g) rs"

text \<open>
  \<open>planning_component.plan(...)\<close>: the request is what the component holds at the
  moment of the call; the answer is the planner's.
\<close>

definition plan :: "planner \<Rightarrow> group \<Rightarrow> plan_kwargs \<Rightarrow> world \<Rightarrow> plan_solution \<times> world" where
  "plan pl g kw w =
     (let r = \<lparr>req_group = g, req_start = start (components w g),
               req_goal = goal (components w g), req_params = kw\<rparr>;
          res = pl (trace w) r
      in (res, emit (Plan r res) w))"

definition execute :: "robot \<Rightarrow> trajectory \<Rightarrow> string list \<Rightarrow> world \<Rightarrow> world" where
  "execute rb t controllers w = emit (Execute rb t controllers) w"

text \<open>\<open>time.sleep\<close> is called with the value as it is, and rejects a negative one.\<close>

definition time_sleep :: "real \<Rightarrow> action" where
  "time_sleep t w =
     (if t < 0 then (Inl ValueError, emit (Sleep t) w) else (Inr PyNone, emit (Sleep t) w))"

subsection \<open>\<open>plan_and_execute\<close>\<close>

text \<open>
  The two optional parameter arguments and \<open>sleep_time\<close> are explicit here; a call of
  the source that leaves them out passes \<open>None\<close>, \<open>None\<close> and \<open>0\<close>.
\<close>

definition plan_and_execute ::
  "planner \<Rightarrow> robot \<Rightarrow> group \<Rightarrow> logger \<Rightarrow> plan_request_parameters option \<Rightarrow>
   string list option \<Rightarrow> real \<Rightarrow> action" where
  "plan_and_execute pl rb planning_component lg single_plan_parameters multi_plan_parameters
     sleep_time w0 =
     (let w1 = logger_info lg ''Planning trajectory'' w0;
          (plan_result, w2) =
            (case multi_plan_parameters of
               Some m \<Rightarrow> plan pl planning_component (MultiPlan m) w1
             | None \<Rightarrow>
                (case single_plan_parameters of
                   Some s \<Rightarrow> plan pl planning_component (SinglePlan s) w1
                 | None \<Rightarrow> plan pl planning_component NoParameters w1));
          w3 =
            (if truthy plan_result then
               (let w = logger_info lg ''Executing plan'' w2;
                    robot_trajectory = trajectory plan_result
                in execute rb robot_trajectory [] w)
             else logger_error lg ''Planning failed'' w2)
      in time_sleep sleep_time w3)"

subsection \<open>\<open>main\<close>\<close>

definition seq_then :: "action \<Rightarrow> action \<Rightarrow> action" where
  "seq_then a b w = (case a w of (Inl e, w') \<Rightarrow> (Inl e, w') | (Inr v, w') \<Rightarrow> b w')"

text \<open>\<open>for _ in range(n): body\<close>\<close>

fun for_range :: "nat \<Rightarrow> action \<Rightarrow> action" where
  "for_range 0 body w = (Inr PyNone, w)"
| "for_range (Suc n) body w =
     (case body w of (Inl e, w') \<Rightarrow> (Inl e, w') | (Inr v, w') \<Rightarrow> for_range n body w')"

definition R_GRIPPER_CLOSE :: angle where "R_GRIPPER_CLOSE = radians 0"
definition R_GRIPPER_OPEN :: angle where "R_GRIPPER_OPEN = radians 40"
definition L_GRIPPER_CLOSE :: angle where "L_GRIPPER_CLOSE = radians 0"
definition L_GRIPPER_OPEN :: angle where "L_GRIPPER_OPEN = radians (- 40)"

text \<open>Lines 101 to 108: the arms go to the named pose.\<close>

definition arm_init_pose ::
  "planner \<Rightarrow> robot \<Rightarrow> group \<Rightarrow> logger \<Rightarrow> plan_request_parameters \<Rightarrow> action" where
  "arm_init_pose pl sciurus17 arm lg plan_request_params w0 =
     (let w = set_start_state_to_current_state arm w0;
          w = set_goal_state arm (ConfigurationName ''two_arm_init_pose'') w
      in plan_and_execute pl sciurus17 arm lg (Some plan_request_params) None 0 w)"

text \<open>Lines 111 to 131: the body of the first loop, the left gripper opens and closes.\<close>

definition l_gripper_body ::
  "planner \<Rightarrow> robot \<Rightarrow> group \<Rightarrow> logger \<Rightarrow> unit \<Rightarrow> plan_request_parameters \<Rightarrow> action" where
  "l_gripper_body pl sciurus17 l_gripper lg robot_model gripper_plan_request_params =
     seq_then
       (\<lambda>w0.
          let w = set_start_state_to_current_state l_gripper w0;
              robot_state = RobotState robot_model;
              robot_state = set_joint_group_positions ''l_gripper_group'' [L_GRIPPER_OPEN] robot_state;
              w = set_goal_state l_gripper (RobotStateGoal robot_state) w
          in plan_and_execute pl sciurus17 l_gripper lg (Some gripper_plan_request_params) None 0 w)
       (\<lambda>w0.
          let w = set_start_state_to_current_state l_gripper w0;
              robot_state = RobotState robot_model;
              robot_state = set_joint_group_positions ''l_gripper_group'' [L_GRIPPER_CLOSE] robot_state;
              w = set_goal_state l_gripper (RobotStateGoal robot_state) w
          in plan_and_execute pl sciurus17 l_gripper lg (Some gripper_plan_request_params) None 0 w)"

text \<open>Lines 134 to 154: the body of the second loop, the same for the right gripper.\<close>

definition r_gripper_body ::
  "planner \<Rightarrow> robot \<Rightarrow> group \<Rightarrow> logger \<Rightarrow> unit \<Rightarrow> plan_request_parameters \<Rightarrow> action" where
  "r_gripper_body pl sciurus17 r_gripper lg robot_model gripper_plan_request_params =
     seq_then
       (\<lambda>w0.
          let w = set_start_state_to_current_state r_gripper w0;
              robot_state = RobotState robot_model;
              robot_state = set_joint_group_positions ''r_gripper_group'' [R_GRIPPER_OPEN] robot_state;
              w = set_goal_state r_gripper (RobotStateGoal robot_state) w
          in plan_and_execute pl sciurus17 r_gripper lg (Some gripper_plan_request_params) None 0 w)
       (\<lambda>w0.
          let w = set_start_state_to_current_state r_gripper w0;
              robot_state = RobotState robot_model;
              robot_state = set_joint_group_positions ''r_gripper_group'' [R_GRIPPER_CLOSE] robot_state;
              w = set_goal_state r_gripper (RobotStateGoal robot_state) w
          in plan_and_execute pl sciurus17 r_gripper lg (Some gripper_plan_request_params) None 0 w)"

text \<open>Lines 63 to 92: everything before the first motion.\<close>

definition main_setup ::
  "world \<Rightarrow> (logger \<times> robot \<times> group \<times> group \<times> group \<times> unit \<times>
             plan_request_parameters \<times> plan_request_parameters) \<times> world" where
  "main_setup w0 =
     (let w = rclpy_init w0;
          lg = get_logger ''moveit_py.gripper_control'';
          (sciurus17, w) = MoveItPy ''gripper_control'' w;
          w = logger_info lg ''MoveItPy instance created'' w;
          (arm, w) = get_planning_component sciurus17 ''two_arm_group'' w;
          (l_gripper, w) = get_planning_component sciurus17 ''l_gripper_group'' w;
          (r_gripper, w) = get_planning_component sciurus17 ''r_gripper_group'' w;
          robot_model = ();
          plan_request_params = PlanRequestParameters sciurus17 ''ompl_rrtc_default'';
          gripper_plan_request_params = PlanRequestParameters sciurus17 ''ompl_rrtc_default'';
          plan_request_params =
            plan_request_params\<lparr>max_acceleration_scaling_factor := Some (1 / 10)\<rparr>;
          plan_request_params =
            plan_request_params\<lparr>max_velocity_scaling_factor := Some (1 / 10)\<rparr>;
          gripper_plan_request_params =
            gripper_plan_request_params\<lparr>max_acceleration_scaling_factor := Some (1 / 10)\<rparr>;
          gripper_plan_request_params =
            gripper_plan_request_params\<lparr>max_velocity_scaling_factor := Some (1 / 10)\<rparr>
      in ((lg, sciurus17, arm, l_gripper, r_gripper, robot_model,
           plan_request_params, gripper_plan_request_params), w))"

definition main :: "planner \<Rightarrow> (error + pyval) \<times> world" where
  "main pl =
     (case main_setup init_world of
        ((lg, sciurus17, arm, l_gripper, r_gripper, robot_model,
          plan_request_params, gripper_plan_request_params), w) \<Rightarrow>
          seq_then (arm_init_pose pl sciurus17 arm lg plan_request_params)
            (seq_then
               (for_range 2
                  (l_gripper_body pl sciurus17 l_gripper lg robot_model
                     gripper_plan_request_params))
               (seq_then
                  (for_range 2
                     (r_gripper_body pl sciurus17 r_gripper lg robot_model
                        gripper_plan_request_params))
                  (\<lambda>w. (Inr PyNone, rclpy_shutdown w))))
            w)"


subsection \<open>The sequence of motion steps\<close>

text \<open>
  The source writes its nine steps out one after the other. The spec's data model names
  what each of them consists of; \<open>run\<close> performs the source's block for one step
  (snapshot of the start state, goal, \<open>plan_and_execute\<close>) on each step of a list, and
  \<open>main\<close> is shown below to be \<open>run\<close> on the list \<open>demo_sequence\<close>.
\<close>

text \<open>A delay is a length of time in seconds: a real number that is not negative.\<close>

typedef duration = "{t::real. 0 \<le> t}"
  morphisms seconds Duration
  by auto

datatype goal_spec = NamedConfiguration string | JointValues group "angle list"

record motion_step =
  target_group :: group
  goal_spec :: goal_spec
  tuning :: plan_request_parameters
  delay :: duration

definition build_goal :: "goal_spec \<Rightarrow> goal_state" where
  "build_goal gs =
     (case gs of
        NamedConfiguration n \<Rightarrow> ConfigurationName n
      | JointValues jg vs \<Rightarrow> RobotStateGoal (set_joint_group_positions jg vs (RobotState ())))"

definition build_request :: "motion_step \<Rightarrow> world \<Rightarrow> world" where
  "build_request s w0 =
     (let w = set_start_state_to_current_state (target_group s) w0
      in set_goal_state (target_group s) (build_goal (goal_spec s)) w)"

definition run_step :: "planner \<Rightarrow> robot \<Rightarrow> logger \<Rightarrow> motion_step \<Rightarrow> action" where
  "run_step pl rb lg s w =
     plan_and_execute pl rb (target_group s) lg (Some (tuning s)) None (seconds (delay s))
       (build_request s w)"

fun run :: "planner \<Rightarrow> robot \<Rightarrow> logger \<Rightarrow> motion_step list \<Rightarrow> action" where
  "run pl rb lg [] w = (Inr PyNone, w)"
| "run pl rb lg (s # ss) w =
     (case run_step pl rb lg s w of
        (Inl e, w') \<Rightarrow> (Inl e, w')
      | (Inr v, w') \<Rightarrow> run pl rb lg ss w')"

definition arm_step :: "plan_request_parameters \<Rightarrow> motion_step" where
  "arm_step p =
     \<lparr>target_group = ''two_arm_group'', goal_spec = NamedConfiguration ''two_arm_init_pose'',
      tuning = p, delay = Duration 0\<rparr>"

definition gripper_step :: "group \<Rightarrow> angle \<Rightarrow> plan_request_parameters \<Rightarrow> motion_step" where
  "gripper_step g a p =
     \<lparr>target_group = g, goal_spec = JointValues g [a], tuning = p, delay = Duration 0\<rparr>"

definition demo_parameters :: plan_request_parameters where
  "demo_parameters =
     \<lparr>planning_namespace = ''ompl_rrtc_default'',
      max_acceleration_scaling_factor = Some (1 / 10),
      max_velocity_scaling_factor = Some (1 / 10)\<rparr>"

definition demo_sequence :: "motion_step list" where
  "demo_sequence =
     [arm_step demo_parameters,
      gripper_step ''l_gripper_group'' L_GRIPPER_OPEN demo_parameters,
      gripper_step ''l_gripper_group'' L_GRIPPER_CLOSE demo_parameters,
      gripper_step ''l_gripper_group'' L_GRIPPER_OPEN demo_parameters,
      gripper_step ''l_gripper_group'' L_GRIPPER_CLOSE demo_parameters,
      gripper_step ''r_gripper_group'' R_GRIPPER_OPEN demo_parameters,
      gripper_step ''r_gripper_group'' R_GRIPPER_CLOSE demo_parameters,
      gripper_step ''r_gripper_group'' R_GRIPPER_OPEN demo_parameters,
      gripper_step ''r_gripper_group'' R_GRIPPER_CLOSE demo_parameters]"

definition demo_world :: world where
  "demo_world = snd (main_setup init_world)"

subsection \<open>Reading a trace\<close>

fun plan_calls :: "event list \<Rightarrow> (plan_request \<times> plan_solution) list" where
  "plan_calls [] = []"
| "plan_calls (Plan r res # es) = (r, res) # plan_calls es"
| "plan_calls (e # es) = plan_calls es"

fun sleeps :: "event list \<Rightarrow> real list" where
  "sleeps [] = []"
| "sleeps (Sleep t # es) = t # sleeps es"
| "sleeps (e # es) = sleeps es"

text \<open>
  The source returns no report. What it leaves of a step's outcome is one line of the
  log: \<open>Executing plan\<close> at level info, or \<open>Planning failed\<close> at level error.
\<close>

datatype step_record = Executed | PlanningFailed

fun outcome_log :: "event list \<Rightarrow> step_record list" where
  "outcome_log [] = []"
| "outcome_log (Log lg lv msg # es) =
     (if lv = Info \<and> msg = ''Executing plan'' then Executed # outcome_log es
      else if lv = Error \<and> msg = ''Planning failed'' then PlanningFailed # outcome_log es
      else outcome_log es)"
| "outcome_log (e # es) = outcome_log es"

definition record_of :: "plan_request \<times> plan_solution \<Rightarrow> step_record" where
  "record_of c = (if truthy (snd c) then Executed else PlanningFailed)"

text \<open>
  Every planning request of the trace starts from the state the robot is in at that
  moment: the first argument is the list of trajectories executed before.
\<close>

fun starts_current :: "trajectory list \<Rightarrow> event list \<Rightarrow> bool" where
  "starts_current before [] = True"
| "starts_current before (Plan r res # es) =
     (req_start r = Some (CurrentState before) \<and> starts_current before es)"
| "starts_current before (Execute rb t cs # es) = starts_current (before @ [t]) es"
| "starts_current before (e # es) = starts_current before es"

text \<open>
  The named states of the robot description (SRDF) are not part of the module: they are
  a parameter, a list of pairs of a group and a state name.
\<close>

fun goal_in_group :: "(group \<times> string) list \<Rightarrow> group \<Rightarrow> goal_state option \<Rightarrow> bool" where
  "goal_in_group srdf g None = False"
| "goal_in_group srdf g (Some (ConfigurationName n)) = ((g, n) \<in> set srdf)"
| "goal_in_group srdf g (Some (RobotStateGoal rs)) = (map fst rs = [g])"

text \<open>
  Modelled from the spec: the robot description (SRDF) of the repository, with its library
  of predefined poses, is not among the source files. The module uses one named
  configuration, which line 100 of the source says the SRDF defines; by the invariant of
  section 3 and the scenario \<open>Arm -> init_pose\<close> of section 8 it is a pose of the arm
  group.
\<close>

definition pose_library :: "(group \<times> string) list" where
  "pose_library = [(''two_arm_group'', ''two_arm_init_pose'')]"

definition events_since :: "world \<Rightarrow> world \<Rightarrow> event list" where
  "events_since w w' = drop (length (trace w)) (trace w')"

definition step_events ::
  "planner \<Rightarrow> robot \<Rightarrow> logger \<Rightarrow> motion_step \<Rightarrow> world \<Rightarrow> event list" where
  "step_events pl rb lg s w = events_since w (snd (run_step pl rb lg s w))"

definition run_events ::
  "planner \<Rightarrow> robot \<Rightarrow> logger \<Rightarrow> motion_step list \<Rightarrow> world \<Rightarrow> event list" where
  "run_events pl rb lg ss w = events_since w (snd (run pl rb lg ss w))"

text \<open>The request and the answer of the one planning call of a step.\<close>

definition chosen_kwargs ::
  "plan_request_parameters option \<Rightarrow> string list option \<Rightarrow> plan_kwargs" where
  "chosen_kwargs sp mp =
     (case mp of Some m \<Rightarrow> MultiPlan m
      | None \<Rightarrow> (case sp of Some s \<Rightarrow> SinglePlan s | None \<Rightarrow> NoParameters))"

definition request_of :: "group \<Rightarrow> plan_kwargs \<Rightarrow> world \<Rightarrow> plan_request" where
  "request_of g kw w =
     \<lparr>req_group = g, req_start = start (components w g),
      req_goal = goal (components w g), req_params = kw\<rparr>"

text \<open>
  Modelled from the spec: the Motion Request Builder of section 4.1, whose contract is
  \<open>build(group, goalSpec, tuningParameters, useCurrentStateAsStart) -> PlanningRequest\<close>.
  The source has no such function: it makes the calls of \<open>build_request\<close> and hands
  the component to \<open>plan\<close>. The request built is the one \<open>plan\<close> would read from
  the component, the start state is always the current one, and by section 4.1 there is
  no failure mode at this layer.
\<close>

definition build :: "motion_step \<Rightarrow> world \<Rightarrow> (error + plan_request) \<times> world" where
  "build s w =
     (Inr (request_of (target_group s) (SinglePlan (tuning s)) (build_request s w)),
      build_request s w)"

definition answer_of :: "planner \<Rightarrow> logger \<Rightarrow> group \<Rightarrow> plan_kwargs \<Rightarrow> world \<Rightarrow> plan_solution" where
  "answer_of pl lg g kw w =
     pl (trace w @ [Log lg Info ''Planning trajectory'']) (request_of g kw w)"

definition outcome_events :: "robot \<Rightarrow> logger \<Rightarrow> plan_solution \<Rightarrow> event list" where
  "outcome_events rb lg res =
     (if truthy res then [Log lg Info ''Executing plan'', Execute rb (trajectory res) []]
      else [Log lg Error ''Planning failed''])"

definition step_request :: "motion_step \<Rightarrow> world \<Rightarrow> plan_request" where
  "step_request s w =
     \<lparr>req_group = target_group s,
      req_start = Some (CurrentState (executions (trace w))),
      req_goal = Some (build_goal (goal_spec s)),
      req_params = SinglePlan (tuning s)\<rparr>"

definition step_answer :: "planner \<Rightarrow> logger \<Rightarrow> motion_step \<Rightarrow> world \<Rightarrow> plan_solution" where
  "step_answer pl lg s w =
     pl (trace w @ [Log lg Info ''Planning trajectory'']) (step_request s w)"

text \<open>Two planners to run the model on: one never finds a plan, one always does.\<close>

definition always_fails :: planner where
  "always_fails h q = \<lparr>truthy = False, trajectory = Trajectory 0\<rparr>"

definition always_succeeds :: planner where
  "always_succeeds h q = \<lparr>truthy = True, trajectory = Trajectory (length h)\<rparr>"

text \<open>
  A planner that depends on the request alone, so that identical requests get identical
  answers: it finds a plan exactly when the start state is that of a robot that has not
  moved yet.
\<close>

definition plans_from_rest :: planner where
  "plans_from_rest h q =
     \<lparr>truthy = (req_start q = Some (CurrentState [])), trajectory = Trajectory 0\<rparr>"

section \<open>Properties\<close>

subsection \<open>Traces\<close>

lemma seconds_nonneg: "0 \<le> seconds d"
  using seconds [of d] by simp

lemma seconds_Duration_0 [simp]: "seconds (Duration 0) = 0"
  by (simp add: Duration_inverse)

lemma trace_emit [simp]: "trace (emit e w) = trace w @ [e]"
  by (simp add: emit_def)

lemma components_emit [simp]: "components (emit e w) = components w"
  by (simp add: emit_def)

lemma plan_calls_append [simp]: "plan_calls (xs @ ys) = plan_calls xs @ plan_calls ys"
  by (induction xs rule: plan_calls.induct) simp_all

lemma executions_append [simp]: "executions (xs @ ys) = executions xs @ executions ys"
  by (induction xs rule: executions.induct) simp_all

lemma sleeps_append [simp]: "sleeps (xs @ ys) = sleeps xs @ sleeps ys"
  by (induction xs rule: sleeps.induct) simp_all

lemma outcome_log_append [simp]: "outcome_log (xs @ ys) = outcome_log xs @ outcome_log ys"
  by (induction xs rule: outcome_log.induct) simp_all

lemma starts_current_append:
  "starts_current before (xs @ ys) =
     (starts_current before xs \<and> starts_current (before @ executions xs) ys)"
  by (induction before xs rule: starts_current.induct) simp_all

subsection \<open>One call of \<open>plan_and_execute\<close>\<close>

lemma plan_and_execute_trace:
  "trace (snd (plan_and_execute pl rb g lg sp mp t w)) =
     trace w @
     [Log lg Info ''Planning trajectory'',
      Plan (request_of g (chosen_kwargs sp mp) w) (answer_of pl lg g (chosen_kwargs sp mp) w)] @
     outcome_events rb lg (answer_of pl lg g (chosen_kwargs sp mp) w) @ [Sleep t]"
  by (cases mp; cases sp)
     (simp_all add: plan_and_execute_def plan_def logger_info_def logger_error_def execute_def
        time_sleep_def chosen_kwargs_def request_of_def answer_of_def outcome_events_def Let_def)

lemma plan_and_execute_components:
  "components (snd (plan_and_execute pl rb g lg sp mp t w)) = components w"
  by (cases mp; cases sp)
     (simp_all add: plan_and_execute_def plan_def logger_info_def logger_error_def execute_def
        time_sleep_def Let_def)

lemma plan_and_execute_result:
  "fst (plan_and_execute pl rb g lg sp mp t w) = (if t < 0 then Inl ValueError else Inr PyNone)"
  by (cases mp; cases sp)
     (simp_all add: plan_and_execute_def plan_def logger_info_def logger_error_def execute_def
        time_sleep_def Let_def)

lemma plan_and_execute_events:
  "events_since w (snd (plan_and_execute pl rb g lg sp mp t w)) =
     [Log lg Info ''Planning trajectory'',
      Plan (request_of g (chosen_kwargs sp mp) w) (answer_of pl lg g (chosen_kwargs sp mp) w)] @
     outcome_events rb lg (answer_of pl lg g (chosen_kwargs sp mp) w) @ [Sleep t]"
  by (simp add: events_since_def plan_and_execute_trace)

lemma plan_calls_outcome_events [simp]: "plan_calls (outcome_events rb lg res) = []"
  by (simp add: outcome_events_def)

lemma sleeps_outcome_events [simp]: "sleeps (outcome_events rb lg res) = []"
  by (simp add: outcome_events_def)

lemma executions_outcome_events:
  "executions (outcome_events rb lg res) = (if truthy res then [trajectory res] else [])"
  by (simp add: outcome_events_def)

lemma outcome_log_outcome_events:
  "outcome_log (outcome_events rb lg res) = [if truthy res then Executed else PlanningFailed]"
  by (simp add: outcome_events_def)

subsection \<open>One step, and a list of steps\<close>

lemma trace_build_request [simp]: "trace (build_request s w) = trace w"
  by (simp add: build_request_def set_start_state_to_current_state_def set_goal_state_def)

lemma request_of_build_request:
  "request_of (target_group s) kw (build_request s w) = (step_request s w)\<lparr>req_params := kw\<rparr>"
  by (simp add: request_of_def build_request_def step_request_def
      set_start_state_to_current_state_def set_goal_state_def)

lemma step_events_eq:
  "step_events pl rb lg s w =
     [Log lg Info ''Planning trajectory'', Plan (step_request s w) (step_answer pl lg s w)] @
     outcome_events rb lg (step_answer pl lg s w) @ [Sleep (seconds (delay s))]"
  by (simp add: step_events_def events_since_def run_step_def plan_and_execute_trace
      answer_of_def request_of_build_request chosen_kwargs_def step_answer_def step_request_def)

lemma run_step_trace:
  "trace (snd (run_step pl rb lg s w)) = trace w @ step_events pl rb lg s w"
  by (simp add: step_events_def events_since_def run_step_def plan_and_execute_trace)

lemma run_step_result: "fst (run_step pl rb lg s w) = Inr PyNone"
  using seconds_nonneg [of "delay s"] by (simp add: run_step_def plan_and_execute_result)

lemma run_Cons_ok:
  "run pl rb lg (s # ss) w = run pl rb lg ss (snd (run_step pl rb lg s w))"
  using run_step_result [of pl rb lg s w]
  by (cases "run_step pl rb lg s w") (simp split: sum.splits)

lemma run_result: "fst (run pl rb lg ss w) = Inr PyNone"
proof (induction ss arbitrary: w)
  case Nil
  show ?case by simp
next
  case (Cons s ss)
  then show ?case by (simp only: run_Cons_ok)
qed

lemma run_trace_prefix: "\<exists>evs. trace (snd (run pl rb lg ss w)) = trace w @ evs"
proof (induction ss arbitrary: w)
  case Nil
  show ?case by simp
next
  case (Cons s ss)
  from Cons.IH [of "snd (run_step pl rb lg s w)"] obtain evs where
    "trace (snd (run pl rb lg ss (snd (run_step pl rb lg s w)))) =
       trace (snd (run_step pl rb lg s w)) @ evs" ..
  then show ?case by (simp only: run_Cons_ok run_step_trace) simp
qed

lemma run_trace: "trace (snd (run pl rb lg ss w)) = trace w @ run_events pl rb lg ss w"
  using run_trace_prefix [of pl rb lg ss w] by (auto simp: run_events_def events_since_def)

lemma run_events_Nil [simp]: "run_events pl rb lg [] w = []"
  by (simp add: run_events_def events_since_def)

lemma run_events_Cons:
  "run_events pl rb lg (s # ss) w =
     step_events pl rb lg s w @ run_events pl rb lg ss (snd (run_step pl rb lg s w))"
proof -
  have "trace w @ run_events pl rb lg (s # ss) w =
        trace w @ step_events pl rb lg s w @ run_events pl rb lg ss (snd (run_step pl rb lg s w))"
    using run_trace [of pl rb lg "s # ss" w] run_trace [of pl rb lg ss "snd (run_step pl rb lg s w)"]
      run_step_trace [of pl rb lg s w] run_Cons_ok [of pl rb lg s ss w]
    by simp
  then show ?thesis by simp
qed

lemma step_plan_calls:
  "plan_calls (step_events pl rb lg s w) = [(step_request s w, step_answer pl lg s w)]"
  by (simp add: step_events_eq)

lemma step_executions:
  "executions (step_events pl rb lg s w) =
     (if truthy (step_answer pl lg s w) then [trajectory (step_answer pl lg s w)] else [])"
  by (simp add: step_events_eq executions_outcome_events)

lemma step_sleeps: "sleeps (step_events pl rb lg s w) = [seconds (delay s)]"
  by (simp add: step_events_eq)

lemma step_outcome_log:
  "outcome_log (step_events pl rb lg s w) =
     [if truthy (step_answer pl lg s w) then Executed else PlanningFailed]"
  by (simp add: step_events_eq outcome_log_outcome_events)

subsection \<open>\<open>main\<close> runs the demo sequence\<close>

lemma arm_init_pose_eq:
  "arm_init_pose pl rb ''two_arm_group'' lg p = run_step pl rb lg (arm_step p)"
  by (rule ext) (simp add: arm_init_pose_def run_step_def arm_step_def build_request_def
      build_goal_def Let_def)

lemma gripper_block_eq:
  "(\<lambda>w0. plan_and_execute pl rb g lg (Some p) None 0
           (set_goal_state g
              (RobotStateGoal (set_joint_group_positions g [a] (RobotState u)))
              (set_start_state_to_current_state g w0))) =
   run_step pl rb lg (gripper_step g a p)"
  by (rule ext) (simp add: run_step_def gripper_step_def build_request_def build_goal_def
      RobotState_def Let_def)

lemma l_gripper_body_eq:
  "l_gripper_body pl rb ''l_gripper_group'' lg u p =
     seq_then (run_step pl rb lg (gripper_step ''l_gripper_group'' L_GRIPPER_OPEN p))
       (run_step pl rb lg (gripper_step ''l_gripper_group'' L_GRIPPER_CLOSE p))"
  by (simp add: l_gripper_body_def Let_def gripper_block_eq)

lemma r_gripper_body_eq:
  "r_gripper_body pl rb ''r_gripper_group'' lg u p =
     seq_then (run_step pl rb lg (gripper_step ''r_gripper_group'' R_GRIPPER_OPEN p))
       (run_step pl rb lg (gripper_step ''r_gripper_group'' R_GRIPPER_CLOSE p))"
  by (simp add: r_gripper_body_def Let_def gripper_block_eq)

lemma seq_then_assoc: "seq_then (seq_then a b) c = seq_then a (seq_then b c)"
  by (rule ext) (simp add: seq_then_def split: prod.splits sum.splits)

lemma for_range_Suc: "for_range (Suc n) body = seq_then body (for_range n body)"
  by (rule ext) (simp add: seq_then_def)

lemma for_range_0_then: "seq_then (for_range 0 body) c = c"
  by (rule ext) (simp add: seq_then_def)

lemma run_Cons_then: "run pl rb lg (s # ss) = seq_then (run_step pl rb lg s) (run pl rb lg ss)"
  by (rule ext) (simp add: seq_then_def)

lemma run_Nil_then: "seq_then (run pl rb lg []) c = c"
  by (rule ext) (simp add: seq_then_def)

lemma main_setup_eq:
  "main_setup init_world =
     ((''moveit_py.gripper_control'', ''gripper_control'', ''two_arm_group'', ''l_gripper_group'',
       ''r_gripper_group'', (), demo_parameters, demo_parameters), demo_world)"
  by (simp add: demo_world_def main_setup_def Let_def get_logger_def MoveItPy_def
      get_planning_component_def PlanRequestParameters_def demo_parameters_def)

lemma demo_world_trace:
  "trace demo_world =
     [RclpyInit, MoveItPyCreated ''gripper_control'',
      Log ''moveit_py.gripper_control'' Info ''MoveItPy instance created'']"
  by (simp add: demo_world_def main_setup_def Let_def get_logger_def MoveItPy_def rclpy_init_def
      logger_info_def get_planning_component_def init_world_def)

lemma main_eq_run:
  "main pl =
     seq_then (run pl ''gripper_control'' ''moveit_py.gripper_control'' demo_sequence)
       (\<lambda>w. (Inr PyNone, rclpy_shutdown w)) demo_world"
proof -
  have two: "(2::nat) = Suc (Suc 0)" by simp
  show ?thesis
    unfolding main_def main_setup_eq demo_sequence_def
    by (simp only: prod.case arm_init_pose_eq l_gripper_body_eq r_gripper_body_eq two
        for_range_Suc seq_then_assoc for_range_0_then run_Cons_then run_Nil_then)
qed

lemma main_result: "fst (main pl) = Inr PyNone"
  using run_result [of pl "''gripper_control''" "''moveit_py.gripper_control''" demo_sequence demo_world]
  by (cases "run pl ''gripper_control'' ''moveit_py.gripper_control'' demo_sequence demo_world")
     (simp add: main_eq_run seq_then_def)

lemma main_trace:
  "trace (snd (main pl)) =
     [RclpyInit, MoveItPyCreated ''gripper_control'',
      Log ''moveit_py.gripper_control'' Info ''MoveItPy instance created''] @
     run_events pl ''gripper_control'' ''moveit_py.gripper_control'' demo_sequence demo_world @
     [RclpyShutdown]"
  using run_result [of pl "''gripper_control''" "''moveit_py.gripper_control''" demo_sequence demo_world]
    run_trace [of pl "''gripper_control''" "''moveit_py.gripper_control''" demo_sequence demo_world]
  by (cases "run pl ''gripper_control'' ''moveit_py.gripper_control'' demo_sequence demo_world")
     (simp add: main_eq_run seq_then_def rclpy_shutdown_def demo_world_trace)

subsection \<open>Sequences and their planning calls\<close>

lemma run_plan_calls:
  "map (\<lambda>c. (req_group (fst c), req_goal (fst c), req_params (fst c)))
     (plan_calls (run_events pl rb lg ss w)) =
   map (\<lambda>s. (target_group s, Some (build_goal (goal_spec s)), SinglePlan (tuning s))) ss"
  by (induction ss arbitrary: w) (simp_all add: run_events_Cons step_plan_calls step_request_def)

lemma run_plan_calls_length: "length (plan_calls (run_events pl rb lg ss w)) = length ss"
  using arg_cong [OF run_plan_calls [of pl rb lg ss w], of length] by simp

lemma run_outcome_log:
  "outcome_log (run_events pl rb lg ss w) = map record_of (plan_calls (run_events pl rb lg ss w))"
  by (induction ss arbitrary: w)
     (simp_all add: run_events_Cons step_plan_calls step_outcome_log record_of_def)

lemma main_plan_targets:
  "map (\<lambda>c. (req_group (fst c), req_goal (fst c))) (plan_calls (trace (snd (main pl)))) =
   map (\<lambda>s. (target_group s, Some (build_goal (goal_spec s)))) demo_sequence"
  using arg_cong [OF run_plan_calls [of pl "''gripper_control''" "''moveit_py.gripper_control''"
        demo_sequence demo_world], of "map (\<lambda>t. (fst t, fst (snd t)))"]
  by (simp add: main_trace comp_def)

lemma demo_targets:
  "map (\<lambda>s. (target_group s, Some (build_goal (goal_spec s)))) demo_sequence =
     [(''two_arm_group'', Some (ConfigurationName ''two_arm_init_pose'')),
      (''l_gripper_group'', Some (RobotStateGoal [(''l_gripper_group'', [radians (- 40)])])),
      (''l_gripper_group'', Some (RobotStateGoal [(''l_gripper_group'', [radians 0])])),
      (''l_gripper_group'', Some (RobotStateGoal [(''l_gripper_group'', [radians (- 40)])])),
      (''l_gripper_group'', Some (RobotStateGoal [(''l_gripper_group'', [radians 0])])),
      (''r_gripper_group'', Some (RobotStateGoal [(''r_gripper_group'', [radians 40])])),
      (''r_gripper_group'', Some (RobotStateGoal [(''r_gripper_group'', [radians 0])])),
      (''r_gripper_group'', Some (RobotStateGoal [(''r_gripper_group'', [radians 40])])),
      (''r_gripper_group'', Some (RobotStateGoal [(''r_gripper_group'', [radians 0])]))]"
  by (simp add: demo_sequence_def arm_step_def gripper_step_def build_goal_def
      set_joint_group_positions_def RobotState_def L_GRIPPER_OPEN_def L_GRIPPER_CLOSE_def
      R_GRIPPER_OPEN_def R_GRIPPER_CLOSE_def)

lemma list_all_through_map:
  "list_all (\<lambda>c. P (f c)) xs = list_all P (map f xs)"
  by (induction xs) simp_all

lemma step_starts_current:
  "starts_current (executions (trace w)) (step_events pl rb lg s w)"
  by (simp add: step_events_eq step_request_def outcome_events_def)

lemma run_starts_current:
  "starts_current (executions (trace w)) (run_events pl rb lg ss w)"
proof (induction ss arbitrary: w)
  case Nil
  show ?case by simp
next
  case (Cons s ss)
  have "executions (trace w) @ executions (step_events pl rb lg s w) =
        executions (trace (snd (run_step pl rb lg s w)))"
    by (simp add: run_step_trace)
  with Cons.IH [of "snd (run_step pl rb lg s w)"] step_starts_current [of w pl rb lg s]
  show ?case by (simp add: run_events_Cons starts_current_append)
qed

lemma run_executions:
  "executions (run_events pl rb lg ss w) =
     map (trajectory \<circ> snd) (filter (truthy \<circ> snd) (plan_calls (run_events pl rb lg ss w)))"
  by (induction ss arbitrary: w)
     (simp_all add: run_events_Cons step_plan_calls step_executions)

lemma all_truthy_records:
  "list_all (\<lambda>c. truthy (snd c)) cs \<Longrightarrow> map record_of cs = replicate (length cs) Executed"
  by (induction cs) (simp_all add: record_of_def)

lemma all_truthy_filter:
  "list_all (\<lambda>c. truthy (snd c)) cs \<Longrightarrow> filter (truthy \<circ> snd) cs = cs"
  by (induction cs) simp_all

section \<open>The claims\<close>

text \<open>
  Claim C1. When the planner's answer for a step is a failure, the step consists of the
  planning notice, the planner call, the line \<open>Planning failed\<close> logged at level error
  and the sleep: the executor is not called. The step returns normally, and in a longer
  sequence the events that follow are the next step's planning notice and planner call,
  for the next step's group and goal.
\<close>

theorem C1_planning_failure_absorbed:
  assumes "plan_calls (step_events pl rb lg s w) = [(r, res)]"
    and "\<not> truthy res"
  shows "step_events pl rb lg s w =
           [Log lg Info ''Planning trajectory'', Plan r res,
            Log lg Error ''Planning failed'', Sleep (seconds (delay s))] \<and>
         executions (step_events pl rb lg s w) = [] \<and>
         fst (run_step pl rb lg s w) = Inr PyNone \<and>
         (\<exists>r' res' evs.
            run_events pl rb lg (s # s' # ss) w =
              step_events pl rb lg s w @
              [Log lg Info ''Planning trajectory'', Plan r' res'] @ evs \<and>
            req_group r' = target_group s' \<and>
            req_goal r' = Some (build_goal (goal_spec s')))"
proof -
  from assms(1) have r: "r = step_request s w" and res: "res = step_answer pl lg s w"
    by (simp_all add: step_plan_calls)
  have ev: "step_events pl rb lg s w =
           [Log lg Info ''Planning trajectory'', Plan r res,
            Log lg Error ''Planning failed'', Sleep (seconds (delay s))]"
    using assms(2) by (simp add: step_events_eq r res outcome_events_def)
  have ex: "executions (step_events pl rb lg s w) = []"
    by (simp add: ev)
  have nxt: "run_events pl rb lg (s # s' # ss) w =
      step_events pl rb lg s w @
      [Log lg Info ''Planning trajectory'',
       Plan (step_request s' (snd (run_step pl rb lg s w)))
         (step_answer pl lg s' (snd (run_step pl rb lg s w)))] @
      (outcome_events rb lg (step_answer pl lg s' (snd (run_step pl rb lg s w))) @
       [Sleep (seconds (delay s'))] @
       run_events pl rb lg ss (snd (run_step pl rb lg s' (snd (run_step pl rb lg s w)))))"
    by (simp add: run_events_Cons step_events_eq)
  have grp: "req_group (step_request s' (snd (run_step pl rb lg s w))) = target_group s'"
    and gl: "req_goal (step_request s' (snd (run_step pl rb lg s w))) =
             Some (build_goal (goal_spec s'))"
    by (simp_all add: step_request_def)
  from nxt grp gl have "\<exists>r' res' evs.
            run_events pl rb lg (s # s' # ss) w =
              step_events pl rb lg s w @
              [Log lg Info ''Planning trajectory'', Plan r' res'] @ evs \<and>
            req_group r' = target_group s' \<and>
            req_goal r' = Some (build_goal (goal_spec s'))"
    by blast
  with ev ex run_step_result [of pl rb lg s w] show ?thesis by blast
qed

text \<open>
  The left gripper's first step, with a planner that never finds a plan.
\<close>

theorem C1_planning_failure_absorbed_witness:
  "plan_calls (step_events always_fails ''gripper_control'' ''moveit_py.gripper_control''
       (gripper_step ''l_gripper_group'' L_GRIPPER_OPEN demo_parameters) init_world) =
     [(step_request (gripper_step ''l_gripper_group'' L_GRIPPER_OPEN demo_parameters) init_world,
       \<lparr>truthy = False, trajectory = Trajectory 0\<rparr>)] \<and>
   \<not> truthy \<lparr>truthy = False, trajectory = Trajectory 0\<rparr> \<and>
   step_events always_fails ''gripper_control'' ''moveit_py.gripper_control''
       (gripper_step ''l_gripper_group'' L_GRIPPER_OPEN demo_parameters) init_world =
     [Log ''moveit_py.gripper_control'' Info ''Planning trajectory'',
      Plan (step_request (gripper_step ''l_gripper_group'' L_GRIPPER_OPEN demo_parameters) init_world)
        \<lparr>truthy = False, trajectory = Trajectory 0\<rparr>,
      Log ''moveit_py.gripper_control'' Error ''Planning failed'', Sleep 0] \<and>
   executions (step_events always_fails ''gripper_control'' ''moveit_py.gripper_control''
       (gripper_step ''l_gripper_group'' L_GRIPPER_OPEN demo_parameters) init_world) = [] \<and>
   fst (run_step always_fails ''gripper_control'' ''moveit_py.gripper_control''
       (gripper_step ''l_gripper_group'' L_GRIPPER_OPEN demo_parameters) init_world) = Inr PyNone"
proof -
  have h1: "plan_calls (step_events always_fails ''gripper_control'' ''moveit_py.gripper_control''
       (gripper_step ''l_gripper_group'' L_GRIPPER_OPEN demo_parameters) init_world) =
     [(step_request (gripper_step ''l_gripper_group'' L_GRIPPER_OPEN demo_parameters) init_world,
       \<lparr>truthy = False, trajectory = Trajectory 0\<rparr>)]"
    by (simp add: step_plan_calls step_answer_def always_fails_def)
  have h2: "\<not> truthy \<lparr>truthy = False, trajectory = Trajectory 0\<rparr>" by simp
  have d: "seconds (delay (gripper_step ''l_gripper_group'' L_GRIPPER_OPEN demo_parameters)) = 0"
    by (simp add: gripper_step_def)
  from C1_planning_failure_absorbed [OF h1 h2] h1 h2 d show ?thesis by simp
qed

text \<open>
  Claim C2. When the planner's answer for a step is a success, the executor is called
  exactly once in that step, with the trajectory of that answer, and the events of the
  rest of the sequence come after the events of this step.
\<close>

theorem C2_success_executes_once:
  assumes "plan_calls (step_events pl rb lg s w) = [(r, res)]"
    and "truthy res"
  shows "step_events pl rb lg s w =
           [Log lg Info ''Planning trajectory'', Plan r res,
            Log lg Info ''Executing plan'', Execute rb (trajectory res) [],
            Sleep (seconds (delay s))] \<and>
         executions (step_events pl rb lg s w) = [trajectory res] \<and>
         run_events pl rb lg (s # ss) w =
           step_events pl rb lg s w @ run_events pl rb lg ss (snd (run_step pl rb lg s w))"
proof -
  from assms(1) have r: "r = step_request s w" and res: "res = step_answer pl lg s w"
    by (simp_all add: step_plan_calls)
  have ev: "step_events pl rb lg s w =
           [Log lg Info ''Planning trajectory'', Plan r res,
            Log lg Info ''Executing plan'', Execute rb (trajectory res) [],
            Sleep (seconds (delay s))]"
    using assms(2) by (simp add: step_events_eq r res outcome_events_def)
  have ex: "executions (step_events pl rb lg s w) = [trajectory res]"
    by (simp add: ev)
  from ev ex run_events_Cons [of pl rb lg s ss w] show ?thesis by blast
qed

text \<open>
  The arm step, with a planner that always finds a plan.
\<close>

theorem C2_success_executes_once_witness:
  "plan_calls (step_events always_succeeds ''gripper_control'' ''moveit_py.gripper_control''
       (arm_step demo_parameters) init_world) =
     [(step_request (arm_step demo_parameters) init_world,
       \<lparr>truthy = True, trajectory = Trajectory 1\<rparr>)] \<and>
   truthy \<lparr>truthy = True, trajectory = Trajectory 1\<rparr> \<and>
   step_events always_succeeds ''gripper_control'' ''moveit_py.gripper_control''
       (arm_step demo_parameters) init_world =
     [Log ''moveit_py.gripper_control'' Info ''Planning trajectory'',
      Plan (step_request (arm_step demo_parameters) init_world)
        \<lparr>truthy = True, trajectory = Trajectory 1\<rparr>,
      Log ''moveit_py.gripper_control'' Info ''Executing plan'',
      Execute ''gripper_control'' (Trajectory 1) [], Sleep 0] \<and>
   executions (step_events always_succeeds ''gripper_control'' ''moveit_py.gripper_control''
       (arm_step demo_parameters) init_world) = [Trajectory 1]"
proof -
  have h1: "plan_calls (step_events always_succeeds ''gripper_control'' ''moveit_py.gripper_control''
       (arm_step demo_parameters) init_world) =
     [(step_request (arm_step demo_parameters) init_world,
       \<lparr>truthy = True, trajectory = Trajectory 1\<rparr>)]"
    by (simp add: step_plan_calls step_answer_def always_succeeds_def init_world_def)
  have h2: "truthy \<lparr>truthy = True, trajectory = Trajectory 1\<rparr>" by simp
  have d: "seconds (delay (arm_step demo_parameters)) = 0"
    by (simp add: arm_step_def)
  from C2_success_executes_once [OF h1 h2] h1 h2 d show ?thesis by simp
qed

text \<open>
  Claim C3. Running a sequence of \<open>N\<close> steps calls the planner exactly \<open>N\<close> times,
  once for each step and in the order of the sequence. In \<open>main\<close> these are nine calls:
  the arm pose, then the left gripper open, close, open, close, then the right gripper
  open, close, open, close.
\<close>

theorem C3_planner_called_once_per_step_in_order:
  "map (\<lambda>c. (req_group (fst c), req_goal (fst c), req_params (fst c)))
     (plan_calls (run_events pl rb lg ss w)) =
   map (\<lambda>s. (target_group s, Some (build_goal (goal_spec s)), SinglePlan (tuning s))) ss \<and>
   length (plan_calls (run_events pl rb lg ss w)) = length ss \<and>
   map (\<lambda>c. (req_group (fst c), req_goal (fst c))) (plan_calls (trace (snd (main pl)))) =
     [(''two_arm_group'', Some (ConfigurationName ''two_arm_init_pose'')),
      (''l_gripper_group'', Some (RobotStateGoal [(''l_gripper_group'', [radians (- 40)])])),
      (''l_gripper_group'', Some (RobotStateGoal [(''l_gripper_group'', [radians 0])])),
      (''l_gripper_group'', Some (RobotStateGoal [(''l_gripper_group'', [radians (- 40)])])),
      (''l_gripper_group'', Some (RobotStateGoal [(''l_gripper_group'', [radians 0])])),
      (''r_gripper_group'', Some (RobotStateGoal [(''r_gripper_group'', [radians 40])])),
      (''r_gripper_group'', Some (RobotStateGoal [(''r_gripper_group'', [radians 0])])),
      (''r_gripper_group'', Some (RobotStateGoal [(''r_gripper_group'', [radians 40])])),
      (''r_gripper_group'', Some (RobotStateGoal [(''r_gripper_group'', [radians 0])]))]"
  using run_plan_calls [of pl rb lg ss w] run_plan_calls_length [of pl rb lg ss w]
    main_plan_targets [of pl] demo_targets
  by simp

text \<open>
  Claim C4. Every call of \<open>plan_and_execute\<close>, and so every step, ends with exactly one
  call of \<open>time.sleep\<close>, with the delay it was given, whatever the planner answered.
  In \<open>main\<close> the nine delays are all zero.
\<close>

theorem C4_sleep_once_per_step:
  "sleeps (events_since w (snd (plan_and_execute pl rb g lg sp mp t w))) = [t] \<and>
   last (events_since w (snd (plan_and_execute pl rb g lg sp mp t w))) = Sleep t \<and>
   sleeps (step_events pl rb lg s w) = [seconds (delay s)] \<and>
   last (step_events pl rb lg s w) = Sleep (seconds (delay s)) \<and>
   sleeps (trace (snd (main pl))) = replicate 9 0"
proof -
  have a: "sleeps (events_since w (snd (plan_and_execute pl rb g lg sp mp t w))) = [t]"
    by (simp add: plan_and_execute_events)
  have b: "last (events_since w (snd (plan_and_execute pl rb g lg sp mp t w))) = Sleep t"
    by (simp add: plan_and_execute_events)
  have c: "last (step_events pl rb lg s w) = Sleep (seconds (delay s))"
    by (simp add: step_events_eq)
  have d: "sleeps (trace (snd (main pl))) = replicate 9 0"
    by (simp add: main_trace demo_sequence_def run_events_Cons step_sleeps arm_step_def
        gripper_step_def eval_nat_numeral)
  from a b c d show ?thesis by (simp add: step_sleeps)
qed

text \<open>
  Claim C5, as the code has it. Running a sequence returns \<open>None\<close>, not a report.
  The outcome of each step is written to the log instead: one line for each step, in
  order, \<open>Executing plan\<close> when the planner's answer was a success and
  \<open>Planning failed\<close> when it was not; an empty sequence writes no such line.
\<close>

theorem C5_outcomes_recorded_in_log:
  "fst (run pl rb lg ss w) = Inr PyNone \<and>
   outcome_log (run_events pl rb lg ss w) =
     map record_of (plan_calls (run_events pl rb lg ss w)) \<and>
   length (outcome_log (run_events pl rb lg ss w)) = length ss \<and>
   outcome_log (run_events pl rb lg [] w) = []"
  by (simp add: run_result run_outcome_log run_plan_calls_length)

text \<open>
  The claim as stated fails: the value returned is \<open>None\<close> both when the planner
  fails and when it succeeds, for one step as for the whole of \<open>main\<close>, so it records
  neither outcome.
\<close>

theorem C5_no_report_returned_counterexample:
  "fst (run always_fails ''gripper_control'' ''moveit_py.gripper_control''
          [arm_step demo_parameters] init_world) = Inr PyNone \<and>
   fst (run always_succeeds ''gripper_control'' ''moveit_py.gripper_control''
          [arm_step demo_parameters] init_world) = Inr PyNone \<and>
   map (truthy \<circ> snd)
     (plan_calls (run_events always_fails ''gripper_control'' ''moveit_py.gripper_control''
        [arm_step demo_parameters] init_world)) = [False] \<and>
   map (truthy \<circ> snd)
     (plan_calls (run_events always_succeeds ''gripper_control'' ''moveit_py.gripper_control''
        [arm_step demo_parameters] init_world)) = [True] \<and>
   fst (main always_fails) = Inr PyNone \<and> fst (main always_succeeds) = Inr PyNone"
  by (simp add: run_result main_result run_events_Cons step_plan_calls step_answer_def
      always_fails_def always_succeeds_def del: run.simps)

text \<open>
  Claim C6. Building the request of a step raises nothing and returns the request with
  the step's group, the current state as start, the goal and the tuning parameters; this
  is the request the source then submits to the planner. Joint values are carried as
  they are given, whatever their number and their group. Building emits no call of the
  logger, the planner, the executor or \<open>time.sleep\<close>, and changes the step's own
  planning component only.
\<close>

theorem C6_request_building_frame:
  "fst (build s w) = Inr (step_request s w) \<and>
   plan_calls (step_events pl rb lg s w) = [(step_request s w, step_answer pl lg s w)] \<and>
   req_goal (step_request \<lparr>target_group = g, goal_spec = JointValues jg vs,
                           tuning = p, delay = d\<rparr> w) =
     Some (RobotStateGoal [(jg, vs)]) \<and>
   trace (snd (build s w)) = trace w \<and>
   components (snd (build s w)) (target_group s) =
     \<lparr>start = Some (CurrentState (executions (trace w))),
      goal = Some (build_goal (goal_spec s))\<rparr> \<and>
   (\<forall>g'. g' \<noteq> target_group s \<longrightarrow> components (snd (build s w)) g' = components w g')"
proof -
  have a: "fst (build s w) = Inr (step_request s w)"
    by (simp add: build_def request_of_build_request step_request_def)
  have b: "req_goal (step_request \<lparr>target_group = g, goal_spec = JointValues jg vs,
                           tuning = p, delay = d\<rparr> w) = Some (RobotStateGoal [(jg, vs)])"
    by (simp add: step_request_def build_goal_def set_joint_group_positions_def RobotState_def)
  have c: "components (snd (build s w)) (target_group s) =
     \<lparr>start = Some (CurrentState (executions (trace w))),
      goal = Some (build_goal (goal_spec s))\<rparr>"
    by (simp add: build_def build_request_def set_start_state_to_current_state_def
        set_goal_state_def)
  have d: "\<forall>g'. g' \<noteq> target_group s \<longrightarrow> components (snd (build s w)) g' = components w g'"
    by (simp add: build_def build_request_def set_start_state_to_current_state_def
        set_goal_state_def)
  have e: "trace (snd (build s w)) = trace w"
    by (simp add: build_def)
  from a b c d e step_plan_calls [of pl rb lg s w] show ?thesis by blast
qed

text \<open>
  A left gripper goal of three joint values: the right gripper's component is untouched.
\<close>

theorem C6_request_building_frame_witness:
  "''r_gripper_group'' \<noteq>
     target_group \<lparr>target_group = ''l_gripper_group'',
       goal_spec = JointValues ''l_gripper_group'' [radians 1, radians 2, radians 3],
       tuning = demo_parameters, delay = Duration 0\<rparr> \<and>
   components (snd (build \<lparr>target_group = ''l_gripper_group'',
       goal_spec = JointValues ''l_gripper_group'' [radians 1, radians 2, radians 3],
       tuning = demo_parameters, delay = Duration 0\<rparr> init_world)) ''r_gripper_group'' =
     components init_world ''r_gripper_group'' \<and>
   fst (build \<lparr>target_group = ''l_gripper_group'',
       goal_spec = JointValues ''l_gripper_group'' [radians 1, radians 2, radians 3],
       tuning = demo_parameters, delay = Duration 0\<rparr> init_world) =
     Inr \<lparr>req_group = ''l_gripper_group'', req_start = Some (CurrentState []),
          req_goal = Some (RobotStateGoal
            [(''l_gripper_group'', [radians 1, radians 2, radians 3])]),
          req_params = SinglePlan demo_parameters\<rparr>"
proof -
  have h: "''r_gripper_group'' \<noteq>
     target_group \<lparr>target_group = ''l_gripper_group'',
       goal_spec = JointValues ''l_gripper_group'' [radians 1, radians 2, radians 3],
       tuning = demo_parameters, delay = Duration 0\<rparr>"
    by simp
  have r: "step_request \<lparr>target_group = ''l_gripper_group'',
       goal_spec = JointValues ''l_gripper_group'' [radians 1, radians 2, radians 3],
       tuning = demo_parameters, delay = Duration 0\<rparr> init_world =
     \<lparr>req_group = ''l_gripper_group'', req_start = Some (CurrentState []),
          req_goal = Some (RobotStateGoal
            [(''l_gripper_group'', [radians 1, radians 2, radians 3])]),
          req_params = SinglePlan demo_parameters\<rparr>"
    by (simp add: step_request_def build_goal_def set_joint_group_positions_def RobotState_def
        init_world_def)
  from C6_request_building_frame [of "\<lparr>target_group = ''l_gripper_group'',
       goal_spec = JointValues ''l_gripper_group'' [radians 1, radians 2, radians 3],
       tuning = demo_parameters, delay = Duration 0\<rparr>" init_world] h r
  show ?thesis by simp
qed

text \<open>
  Claim C7. Every planning request, of any sequence and of \<open>main\<close> in particular,
  has as its start state the snapshot of the robot's state at the time of the request:
  the trajectories executed until then. \<open>main\<close> makes nine such requests.
\<close>

theorem C7_start_state_is_current_state:
  "starts_current (executions (trace w)) (run_events pl rb lg ss w) \<and>
   starts_current [] (trace (snd (main pl))) \<and>
   length (plan_calls (trace (snd (main pl)))) = 9"
proof -
  have "starts_current [] (trace (snd (main pl)))"
    using run_starts_current [of demo_world pl "''gripper_control''"
        "''moveit_py.gripper_control''" demo_sequence]
    by (simp add: main_trace starts_current_append demo_world_trace)
  moreover have "length (plan_calls (trace (snd (main pl)))) = 9"
    by (simp add: main_trace run_plan_calls_length demo_sequence_def)
  ultimately show ?thesis using run_starts_current [of w pl rb lg ss] by simp
qed

text \<open>
  Claim C8. In every planning request of \<open>main\<close> the goal belongs to the group of the
  planning component. The first request is the arm component's, for the named
  configuration \<open>two_arm_init_pose\<close>, a pose of the arm group in the pose library. The
  eight others are the grippers': each sets the joint positions of its own component's
  group and of no other, whatever the pose library holds.
\<close>

theorem C8_goal_group_is_target_group:
  "list_all (\<lambda>c. goal_in_group pose_library (req_group (fst c)) (req_goal (fst c)))
     (plan_calls (trace (snd (main pl)))) \<and>
   length (plan_calls (trace (snd (main pl)))) = 9 \<and>
   map (\<lambda>c. (req_group (fst c), req_goal (fst c))) (take 1 (plan_calls (trace (snd (main pl))))) =
     [(''two_arm_group'', Some (ConfigurationName ''two_arm_init_pose''))] \<and>
   list_all (\<lambda>c. goal_in_group [] (req_group (fst c)) (req_goal (fst c)))
     (drop 1 (plan_calls (trace (snd (main pl)))))"
proof -
  let ?cs = "plan_calls (trace (snd (main pl)))"
  let ?f = "\<lambda>c. (req_group (fst c), req_goal (fst c))"
  have all: "list_all (\<lambda>c. goal_in_group pose_library (req_group (fst c)) (req_goal (fst c))) ?cs"
    using list_all_through_map [of "\<lambda>t. goal_in_group pose_library (fst t) (snd t)" ?f ?cs]
    by (simp add: main_plan_targets demo_targets pose_library_def)
  have len: "length ?cs = 9"
    by (simp add: main_trace run_plan_calls_length demo_sequence_def)
  have arm: "map ?f (take 1 ?cs) =
     [(''two_arm_group'', Some (ConfigurationName ''two_arm_init_pose''))]"
    using arg_cong [OF main_plan_targets [of pl], of "take 1"]
    by (simp add: demo_targets take_map)
  have "map ?f (drop 1 ?cs) = drop 1 (map ?f ?cs)"
    by (simp add: drop_map)
  then have grip: "list_all (\<lambda>c. goal_in_group [] (req_group (fst c)) (req_goal (fst c)))
     (drop 1 ?cs)"
    using list_all_through_map [of "\<lambda>t. goal_in_group [] (fst t) (snd t)" ?f "drop 1 ?cs"]
    by (simp add: main_plan_targets demo_targets)
  from all len arm grip show ?thesis by blast
qed

text \<open>
  Claim C9, as the code has it. Running a sequence twice returns \<open>None\<close> both times.
  If the planner answers with a success every request of both runs, then in both runs
  the planner is called once for every step, with the same groups, goals and parameters,
  the executor is called once for every step with the trajectory of that step's answer,
  and the log records \<open>Executing plan\<close> once for every step.
\<close>

theorem C9_successful_runs_repeat:
  assumes "list_all (\<lambda>c. truthy (snd c)) (plan_calls (run_events pl rb lg ss w))"
    and "list_all (\<lambda>c. truthy (snd c))
           (plan_calls (run_events pl rb lg ss (snd (run pl rb lg ss w))))"
  shows "fst (run pl rb lg ss w) = Inr PyNone \<and>
         fst (run pl rb lg ss (snd (run pl rb lg ss w))) = Inr PyNone \<and>
         outcome_log (run_events pl rb lg ss w) = replicate (length ss) Executed \<and>
         outcome_log (run_events pl rb lg ss (snd (run pl rb lg ss w))) =
           replicate (length ss) Executed \<and>
         length (plan_calls (run_events pl rb lg ss w)) = length ss \<and>
         length (plan_calls (run_events pl rb lg ss (snd (run pl rb lg ss w)))) = length ss \<and>
         executions (run_events pl rb lg ss w) =
           map (trajectory \<circ> snd) (plan_calls (run_events pl rb lg ss w)) \<and>
         executions (run_events pl rb lg ss (snd (run pl rb lg ss w))) =
           map (trajectory \<circ> snd)
             (plan_calls (run_events pl rb lg ss (snd (run pl rb lg ss w)))) \<and>
         map (\<lambda>c. (req_group (fst c), req_goal (fst c), req_params (fst c)))
           (plan_calls (run_events pl rb lg ss w)) =
         map (\<lambda>c. (req_group (fst c), req_goal (fst c), req_params (fst c)))
           (plan_calls (run_events pl rb lg ss (snd (run pl rb lg ss w))))"
proof -
  let ?w' = "snd (run pl rb lg ss w)"
  have l1: "outcome_log (run_events pl rb lg ss w) = replicate (length ss) Executed"
    using all_truthy_records [OF assms(1)]
    by (simp add: run_outcome_log run_plan_calls_length)
  have l2: "outcome_log (run_events pl rb lg ss ?w') = replicate (length ss) Executed"
    using all_truthy_records [OF assms(2)]
    by (simp add: run_outcome_log run_plan_calls_length)
  have e1: "executions (run_events pl rb lg ss w) =
           map (trajectory \<circ> snd) (plan_calls (run_events pl rb lg ss w))"
    using all_truthy_filter [OF assms(1)] by (simp add: run_executions)
  have e2: "executions (run_events pl rb lg ss ?w') =
           map (trajectory \<circ> snd) (plan_calls (run_events pl rb lg ss ?w'))"
    using all_truthy_filter [OF assms(2)] by (simp add: run_executions)
  have same: "map (\<lambda>c. (req_group (fst c), req_goal (fst c), req_params (fst c)))
           (plan_calls (run_events pl rb lg ss w)) =
         map (\<lambda>c. (req_group (fst c), req_goal (fst c), req_params (fst c)))
           (plan_calls (run_events pl rb lg ss ?w'))"
    by (simp only: run_plan_calls)
  from l1 l2 e1 e2 same show ?thesis
    by (simp add: run_result run_plan_calls_length)
qed

text \<open>
  The arm step, run twice with a planner that always finds a plan.
\<close>

theorem C9_successful_runs_repeat_witness:
  "list_all (\<lambda>c. truthy (snd c))
     (plan_calls (run_events always_succeeds ''gripper_control'' ''moveit_py.gripper_control''
        [arm_step demo_parameters] init_world)) \<and>
   list_all (\<lambda>c. truthy (snd c))
     (plan_calls (run_events always_succeeds ''gripper_control'' ''moveit_py.gripper_control''
        [arm_step demo_parameters]
        (snd (run always_succeeds ''gripper_control'' ''moveit_py.gripper_control''
           [arm_step demo_parameters] init_world)))) \<and>
   outcome_log (run_events always_succeeds ''gripper_control'' ''moveit_py.gripper_control''
      [arm_step demo_parameters] init_world) = [Executed] \<and>
   outcome_log (run_events always_succeeds ''gripper_control'' ''moveit_py.gripper_control''
      [arm_step demo_parameters]
      (snd (run always_succeeds ''gripper_control'' ''moveit_py.gripper_control''
         [arm_step demo_parameters] init_world))) = [Executed] \<and>
   length (executions (run_events always_succeeds ''gripper_control''
      ''moveit_py.gripper_control'' [arm_step demo_parameters] init_world)) = 1"
proof -
  have h1: "list_all (\<lambda>c. truthy (snd c))
     (plan_calls (run_events always_succeeds ''gripper_control'' ''moveit_py.gripper_control''
        [arm_step demo_parameters] init_world))"
    by (simp add: run_events_Cons step_plan_calls step_answer_def always_succeeds_def)
  have h2: "list_all (\<lambda>c. truthy (snd c))
     (plan_calls (run_events always_succeeds ''gripper_control'' ''moveit_py.gripper_control''
        [arm_step demo_parameters]
        (snd (run always_succeeds ''gripper_control'' ''moveit_py.gripper_control''
           [arm_step demo_parameters] init_world))))"
    by (simp add: run_events_Cons step_plan_calls step_answer_def always_succeeds_def)
  from C9_successful_runs_repeat [OF h1 h2] h1 h2 show ?thesis by simp
qed

text \<open>
  The claim as stated fails. A planner that answers identical requests identically, and
  every request of the first run with a success, may still fail in the second run: each
  step plans from the robot's current state, so the second run's requests are not those
  of the first. And both runs return \<open>None\<close>, no report.
\<close>

theorem C9_deterministic_planner_counterexample:
  "outcome_log (run_events plans_from_rest ''gripper_control'' ''moveit_py.gripper_control''
      [arm_step demo_parameters] init_world) = [Executed] \<and>
   outcome_log (run_events plans_from_rest ''gripper_control'' ''moveit_py.gripper_control''
      [arm_step demo_parameters]
      (snd (run plans_from_rest ''gripper_control'' ''moveit_py.gripper_control''
         [arm_step demo_parameters] init_world))) = [PlanningFailed] \<and>
   fst (run plans_from_rest ''gripper_control'' ''moveit_py.gripper_control''
      [arm_step demo_parameters] init_world) = Inr PyNone \<and>
   fst (run plans_from_rest ''gripper_control'' ''moveit_py.gripper_control''
      [arm_step demo_parameters]
      (snd (run plans_from_rest ''gripper_control'' ''moveit_py.gripper_control''
         [arm_step demo_parameters] init_world))) = Inr PyNone"
proof -
  have first: "step_answer plans_from_rest ''moveit_py.gripper_control''
      (arm_step demo_parameters) init_world = \<lparr>truthy = True, trajectory = Trajectory 0\<rparr>"
    by (simp add: step_answer_def plans_from_rest_def step_request_def init_world_def)
  have t0: "trace init_world = []"
    by (simp add: init_world_def)
  have tr: "executions (trace (snd (run_step plans_from_rest ''gripper_control''
      ''moveit_py.gripper_control'' (arm_step demo_parameters) init_world))) = [Trajectory 0]"
    by (simp add: run_step_trace step_executions first t0)
  have second: "step_answer plans_from_rest ''moveit_py.gripper_control''
      (arm_step demo_parameters)
      (snd (run_step plans_from_rest ''gripper_control'' ''moveit_py.gripper_control''
         (arm_step demo_parameters) init_world)) =
      \<lparr>truthy = False, trajectory = Trajectory 0\<rparr>"
    by (simp add: step_answer_def plans_from_rest_def step_request_def tr)
  show ?thesis
    by (simp add: run_result run_events_Cons run_Cons_ok step_outcome_log first second
        del: run.simps(2))
qed

text \<open>
  Claim C10. \<open>plan_and_execute\<close> calls the planner exactly once, and chooses the
  keyword argument by a fixed precedence: the multi-plan parameters when they are given,
  whatever the single-plan argument is; the single-plan parameters when only they are
  given; no parameters when neither is given.
\<close>

theorem C10_parameter_precedence:
  "map (req_params \<circ> fst)
     (plan_calls (events_since w (snd (plan_and_execute pl rb g lg sp (Some m) t w)))) =
     [MultiPlan m] \<and>
   map (req_params \<circ> fst)
     (plan_calls (events_since w (snd (plan_and_execute pl rb g lg (Some s) None t w)))) =
     [SinglePlan s] \<and>
   map (req_params \<circ> fst)
     (plan_calls (events_since w (snd (plan_and_execute pl rb g lg None None t w)))) =
     [NoParameters]"
  by (simp add: plan_and_execute_events chosen_kwargs_def request_of_def)

end
